theory Spec2Isabelle
  imports Complex_Main "HOL-Library.Multiset"
begin

section \<open>Data model\<close>

text \<open>
  The back end keeps two MongoDB collections that matter here: products
  (\<^verbatim>\<open>Product.model.js\<close>) and sales.  Object ids are abstract, so a natural
  number stands for one.  Stock and cart quantities are JavaScript numbers that
  hold integers (the routes validate them with \<^verbatim>\<open>isInt\<close>) and are modelled as
  \<open>int\<close>.  Money is modelled with exact rational arithmetic; the source
  never rounds, so no rounding step appears in the model either.  Instants are
  milliseconds since the epoch, as in a JavaScript \<^verbatim>\<open>Date\<close>.
\<close>

type_synonym objectId = nat

record product =
  product_id :: objectId
  name :: string
  price :: rat
  stockQuantity :: int
  isActive :: bool

record saleItem =
  item_product :: objectId
  item_quantity :: int
  item_price :: rat
  item_subtotal :: rat

record sale =
  sale_id :: objectId
  saleNumber :: string
  items :: "saleItem list"
  subtotal :: rat
  discount :: rat
  tax :: rat
  total :: rat
  paymentMethod :: string
  cashier :: objectId
  isVoid :: bool
  voidedAt :: "int option"
  voidedBy :: "objectId option"
  createdAt :: int

record db =
  products :: "product list"
  sales :: "sale list"

text \<open>The body of \<^verbatim>\<open>POST /api/sales\<close>, with the fields the route validates.\<close>

record cartItem =
  ci_product :: objectId
  ci_quantity :: int

record saleBody =
  b_items :: "cartItem list"
  b_paymentMethod :: string
  b_discount :: "rat option"
  b_tax :: "rat option"

text \<open>
  What a request sees besides its body: the clock reading, the offset of the
  host's local time from UTC in milliseconds (a zone without daylight saving),
  the authenticated user, and whether the sale collection has a unique index on
  \<open>saleNumber\<close> (the sale schema is not among the sources, so the index is a
  parameter).
\<close>

record env =
  now :: int
  tzOffset :: int
  user :: objectId
  saleNumberUnique :: bool

text \<open>Errors that are thrown and handed to \<^verbatim>\<open>next(error)\<close>.\<close>

datatype thrown = TypeError | ValidationError | DuplicateKey

datatype response =
    Created sale
  | Voided sale
  | ProductNotFound "objectId option"
  | InsufficientStock string int int
  | SaleNotFound
  | AlreadyVoided
  | ProductsNotFound
  | Thrown thrown

section \<open>Dates and number formatting of the JavaScript runtime\<close>

definition msPerDay :: int where
  "msPerDay = 86400000"

text \<open>Day number since the epoch to proleptic Gregorian (year, month, day).\<close>

definition civil_from_days :: "int \<Rightarrow> int \<times> int \<times> int" where
  "civil_from_days z0 =
     (let z = z0 + 719468;
          era = z div 146097;
          doe = z - era * 146097;
          yoe = (doe - doe div 1460 + doe div 36524 - doe div 146096) div 365;
          y = yoe + era * 400;
          doy = doe - (365 * yoe + yoe div 4 - yoe div 100);
          mp = (5 * doy + 2) div 153;
          d = doy - (153 * mp + 2) div 5 + 1;
          m = (if mp < 10 then mp + 3 else mp - 9)
      in (if m \<le> 2 then y + 1 else y, m, d))"

definition digit :: "nat \<Rightarrow> char" where
  "digit d = ''0123456789'' ! d"

fun String_nat :: "nat \<Rightarrow> string" where
  "String_nat n = (if n < 10 then [digit n] else String_nat (n div 10) @ [digit (n mod 10)])"

declare String_nat.simps [simp del]

definition padStart :: "nat \<Rightarrow> char \<Rightarrow> string \<Rightarrow> string" where
  "padStart w c s = replicate (w - length s) c @ s"

definition pad_int :: "nat \<Rightarrow> int \<Rightarrow> string" where
  "pad_int w i = padStart w (CHR ''0'') (String_nat (nat i))"

text \<open>
  \<^verbatim>\<open>Date.prototype.toISOString\<close>: four digits for the years 0 to 9999, a
  sign and six digits otherwise.
\<close>

definition toISOString :: "int \<Rightarrow> string" where
  "toISOString t =
     (case civil_from_days (t div msPerDay) of (y, m, d) \<Rightarrow>
        let ms = t mod msPerDay;
            year = (if 0 \<le> y \<and> y \<le> 9999 then pad_int 4 y
                    else (if y < 0 then ''-'' else ''+'') @ pad_int 6 \<bar>y\<bar>)
        in year @ ''-'' @ pad_int 2 m @ ''-'' @ pad_int 2 d @ ''T''
           @ pad_int 2 (ms div 3600000) @ '':'' @ pad_int 2 (ms mod 3600000 div 60000) @ '':''
           @ pad_int 2 (ms mod 60000 div 1000) @ ''.'' @ pad_int 3 (ms mod 1000) @ ''Z'')"

text \<open>\<^verbatim>\<open>date.setHours(0, 0, 0, 0)\<close>: midnight of the local day of \<open>t\<close>.\<close>

definition localMidnight :: "int \<Rightarrow> int \<Rightarrow> int" where
  "localMidnight tz t = (t + tz) div msPerDay * msPerDay - tz"

text \<open>
  \<^verbatim>\<open>date.setHours(23, 59, 59, 999)\<close>, applied in the source to the date that
  was just moved to local midnight.
\<close>

definition localEndOfDay :: "int \<Rightarrow> int \<Rightarrow> int" where
  "localEndOfDay tz t = localMidnight tz t + 86399999"

section \<open>Sale numbering\<close>

text \<open>
  \<^verbatim>\<open>generateSaleNumber\<close>: the date part is the UTC date of the clock
  reading, the sequence part is one more than the number of sales created
  between local midnight (inclusive) and 23:59:59.999 local time (exclusive).
\<close>

definition countDocuments :: "int \<Rightarrow> int \<Rightarrow> sale list \<Rightarrow> nat" where
  "countDocuments gte lt ss = length (filter (\<lambda>s. gte \<le> createdAt s \<and> createdAt s < lt) ss)"

definition generateSaleNumber :: "env \<Rightarrow> sale list \<Rightarrow> string" where
  "generateSaleNumber e ss =
     (let dateStr = filter (\<lambda>c. c \<noteq> CHR ''-'') (take 10 (toISOString (now e)));
          count = countDocuments (localMidnight (tzOffset e) (now e))
                    (localEndOfDay (tzOffset e) (now e)) ss
      in ''SALE-'' @ dateStr @ ''-'' @ padStart 4 (CHR ''0'') (String_nat (count + 1)))"

section \<open>Product collection\<close>

text \<open>\<^verbatim>\<open>Product.find({ _id: { $in: ids } })\<close>.\<close>

definition find_in :: "objectId list \<Rightarrow> product list \<Rightarrow> product list" where
  "find_in ids coll = filter (\<lambda>p. product_id p \<in> set ids) coll"

text \<open>
  \<^verbatim>\<open>productMap.get(id)\<close> on the map built from the documents found.  Ids
  are unique in a collection, so the map has one entry for each document.
\<close>

definition productMap_get :: "product list \<Rightarrow> objectId \<Rightarrow> product option" where
  "productMap_get docs i = find (\<lambda>p. product_id p = i) docs"

text \<open>Assignment to \<^verbatim>\<open>product.stockQuantity\<close> of a loaded document.\<close>

definition setStock :: "product list \<Rightarrow> objectId \<Rightarrow> int \<Rightarrow> product list" where
  "setStock docs i q = map (\<lambda>p. if product_id p = i then p\<lparr>stockQuantity := q\<rparr> else p) docs"

text \<open>
  \<^verbatim>\<open>product.save()\<close>: the schema validator \<^verbatim>\<open>min: [0, ...]\<close> on
  \<open>stockQuantity\<close> rejects a negative value; otherwise the stored document
  takes the new stock.  The handlers assign to no other field of a product.
\<close>

definition validStock :: "product \<Rightarrow> bool" where
  "validStock p \<longleftrightarrow> 0 \<le> stockQuantity p"

definition save :: "product list \<Rightarrow> product \<Rightarrow> product list" where
  "save coll p = (if validStock p then setStock coll (product_id p) (stockQuantity p) else coll)"

text \<open>
  \<^verbatim>\<open>Promise.all(products.map(product => product.save()))\<close>: every save is
  started; the ones that validate are written; the whole rejects when one
  fails.
\<close>

definition saveAll :: "product list \<Rightarrow> product list \<Rightarrow> product list \<times> bool" where
  "saveAll coll docs = (foldl save coll docs, list_all validStock docs)"

definition stockOf :: "product list \<Rightarrow> objectId \<Rightarrow> int option" where
  "stockOf coll i = map_option stockQuantity (find (\<lambda>p. product_id p = i) coll)"

section \<open>Creating a sale\<close>


text \<open>
  The loop over the cart.  It returns at the first item whose product is not in
  the map or whose stock is short; otherwise it adds the line to the sale items
  and lowers the stock of the loaded document.
\<close>

fun cartLoop :: "product list \<Rightarrow> cartItem list \<Rightarrow> rat \<Rightarrow> saleItem list
    \<Rightarrow> response + (product list \<times> rat \<times> saleItem list)" where
  "cartLoop docs [] sub acc = Inr (docs, sub, acc)"
| "cartLoop docs (it # rest) sub acc =
     (case productMap_get docs (ci_product it) of
        None \<Rightarrow> Inl (ProductNotFound (Some (ci_product it)))
      | Some p \<Rightarrow>
          if stockQuantity p < ci_quantity it
          then Inl (InsufficientStock (name p) (stockQuantity p) (ci_quantity it))
          else
            let itemSubtotal = price p * of_int (ci_quantity it)
            in cartLoop (setStock docs (product_id p) (stockQuantity p - ci_quantity it)) rest
                 (sub + itemSubtotal)
                 (acc @ [\<lparr>item_product = product_id p, item_quantity = ci_quantity it,
                          item_price = price p, item_subtotal = itemSubtotal\<rparr>]))"

text \<open>A fresh object id for a new sale document.\<close>

definition freshId :: "sale list \<Rightarrow> objectId" where
  "freshId ss = Suc (foldl max 0 (map sale_id ss))"

text \<open>
  \<^verbatim>\<open>Sale.create\<close>: appends the document, unless the unique index on
  \<open>saleNumber\<close> is there and the number is taken.  The sale schema
  (\<^verbatim>\<open>Sale.model.js\<close>) is not among the sources: the fields of a sale are
  those that the handlers and the reports read and write, a new sale is not
  void and has no void fields, as the specification has it, and its
  \<open>createdAt\<close> is the clock reading of the request, which also serves the
  sale number.
\<close>

definition Sale_create :: "env \<Rightarrow> sale list \<Rightarrow> sale \<Rightarrow> sale list option" where
  "Sale_create e ss s =
     (if saleNumberUnique e \<and> saleNumber s \<in> set (map saleNumber ss) then None
      else Some (ss @ [s]))"

definition createSale :: "env \<Rightarrow> db \<Rightarrow> saleBody \<Rightarrow> db \<times> response" where
  "createSale e d body =
     (let its = b_items body;
          productIds = map ci_product its;
          found = find_in productIds (products d)
      in if length found \<noteq> length its
         then (d, ProductNotFound
                    (find (\<lambda>i. i \<notin> set (map product_id found)) productIds))
         else
           (case cartLoop found its 0 [] of
             Inl r \<Rightarrow> (d, r)
           | Inr (docs, sub, saleItems) \<Rightarrow>
               (case saveAll (products d) docs of (coll, ok) \<Rightarrow>
                  if \<not> ok then (d\<lparr>products := coll\<rparr>, Thrown ValidationError)
                  else
                    let vatRate = 12 / 100;
                        tx = sub * vatRate;
                        tot = sub + tx;
                        s = \<lparr>sale_id = freshId (sales d),
                             saleNumber = generateSaleNumber e (sales d),
                             items = saleItems, subtotal = sub, discount = 0, tax = tx,
                             total = tot, paymentMethod = b_paymentMethod body,
                             cashier = user e, isVoid = False, voidedAt = None,
                             voidedBy = None, createdAt = now e\<rparr>
                    in (case Sale_create e (sales d) s of
                          None \<Rightarrow> (d\<lparr>products := coll\<rparr>, Thrown DuplicateKey)
                        | Some ss \<Rightarrow> (\<lparr>products = coll, sales = ss\<rparr>, Created s)))))"

section \<open>Voiding a sale\<close>

text \<open>\<^verbatim>\<open>Sale.findById(id)\<close>.\<close>

definition findById :: "sale list \<Rightarrow> objectId \<Rightarrow> sale option" where
  "findById ss i = find (\<lambda>s. sale_id s = i) ss"

text \<open>
  \<^verbatim>\<open>.populate('items.product', ...)\<close> followed by
  \<^verbatim>\<open>sale.items.map(item => item.product._id || item.product)\<close>.  Populating
  a reference whose document is gone leaves \<^verbatim>\<open>null\<close>, and reading
  \<^verbatim>\<open>_id\<close> of \<^verbatim>\<open>null\<close> throws a TypeError; \<open>None\<close> is that outcome.
\<close>

fun populatedIds :: "product list \<Rightarrow> saleItem list \<Rightarrow> objectId list option" where
  "populatedIds coll [] = Some []"
| "populatedIds coll (it # rest) =
     (case find (\<lambda>p. product_id p = item_product it) coll of
        None \<Rightarrow> None
      | Some p \<Rightarrow> map_option ((#) (product_id p)) (populatedIds coll rest))"

text \<open>The loop that adds each line's quantity back to its loaded product.\<close>

fun restoreLoop :: "product list \<Rightarrow> saleItem list \<Rightarrow> product list" where
  "restoreLoop docs [] = docs"
| "restoreLoop docs (it # rest) =
     (case productMap_get docs (item_product it) of
        None \<Rightarrow> restoreLoop docs rest
      | Some p \<Rightarrow>
          restoreLoop (setStock docs (product_id p) (stockQuantity p + item_quantity it)) rest)"

text \<open>\<^verbatim>\<open>sale.save()\<close> after the void fields were set.\<close>

definition saveSale :: "sale list \<Rightarrow> sale \<Rightarrow> sale list" where
  "saveSale ss s = map (\<lambda>x. if sale_id x = sale_id s then s else x) ss"

definition voidSale :: "env \<Rightarrow> db \<Rightarrow> objectId \<Rightarrow> db \<times> response" where
  "voidSale e d i =
     (case findById (sales d) i of
        None \<Rightarrow> (d, SaleNotFound)
      | Some s \<Rightarrow>
          if isVoid s then (d, AlreadyVoided)
          else
            (case populatedIds (products d) (items s) of
               None \<Rightarrow> (d, Thrown TypeError)
             | Some productIds \<Rightarrow>
                 let found = find_in productIds (products d)
                 in if length found \<noteq> length productIds then (d, ProductsNotFound)
                    else
                      (case saveAll (products d) (restoreLoop found (items s)) of (coll, ok) \<Rightarrow>
                         if \<not> ok then (d\<lparr>products := coll\<rparr>, Thrown ValidationError)
                         else
                           let s' = s\<lparr>isVoid := True, voidedAt := Some (now e),
                                      voidedBy := Some (user e)\<rparr>
                           in (\<lparr>products = coll, sales = saveSale (sales d) s'\<rparr>, Voided s'))))"

section \<open>Sequences of requests\<close>

datatype request = CreateSale env saleBody | VoidSale env objectId

fun handle :: "db \<Rightarrow> request \<Rightarrow> db \<times> response" where
  "handle d (CreateSale e body) = createSale e d body"
| "handle d (VoidSale e i) = voidSale e d i"

definition exec :: "db \<Rightarrow> request list \<Rightarrow> db" where
  "exec d rs = foldl (\<lambda>d r. fst (handle d r)) d rs"

definition stocksNonNegative :: "db \<Rightarrow> bool" where
  "stocksNonNegative d \<longleftrightarrow> list_all (\<lambda>p. 0 \<le> stockQuantity p) (products d)"

section \<open>Top products report\<close>










section \<open>Notions of the specification\<close>





section \<open>Auxiliary notions for the statements\<close>

text \<open>A response that reports a failure on a line item of the cart.\<close>

fun lineItemFailure :: "response \<Rightarrow> bool" where
  "lineItemFailure (ProductNotFound _) = True"
| "lineItemFailure (InsufficientStock _ _ _) = True"
| "lineItemFailure _ = False"




text \<open>The same store with other active flags, \<open>g\<close> giving the flag of each id.\<close>

definition withActive :: "(objectId \<Rightarrow> bool) \<Rightarrow> product \<Rightarrow> product" where
  "withActive g p = p\<lparr>isActive := g (product_id p)\<rparr>"


section \<open>Example data\<close>

text \<open>A host on Manila time (UTC+8); user 7 is signed in.\<close>

definition envAt :: "int \<Rightarrow> env" where
  "envAt t = \<lparr>now = t, tzOffset = 28800000, user = 7, saleNumberUnique = False\<rparr>"

text \<open>2024-01-01T10:00:00Z and 2024-01-01T17:00:00Z.\<close>

definition t1000 :: int where
  "t1000 = 1704103200000"

definition t1700 :: int where
  "t1700 = 1704128400000"

definition cartOf :: "(objectId \<times> int) list \<Rightarrow> saleBody" where
  "cartOf xs = \<lparr>b_items = map (\<lambda>(i, q). \<lparr>ci_product = i, ci_quantity = q\<rparr>) xs,
                b_paymentMethod = ''cash'', b_discount = None, b_tax = None\<rparr>"

text \<open>Scenario A: product P, stock 10, price 100.\<close>

definition productP :: product where
  "productP = \<lparr>product_id = 1, name = ''P'', price = 100, stockQuantity = 10, isActive = True\<rparr>"

definition dbA :: db where
  "dbA = \<lparr>products = [productP], sales = []\<rparr>"

text \<open>Scenario C: product A with stock 5, product B with stock 0.\<close>

definition dbC :: db where
  "dbC = \<lparr>products =
            [\<lparr>product_id = 1, name = ''A'', price = 20, stockQuantity = 5, isActive = True\<rparr>,
             \<lparr>product_id = 2, name = ''B'', price = 50, stockQuantity = 0, isActive = True\<rparr>],
          sales = []\<rparr>"



text \<open>Scenario A after the sale, and the same state after product P was deleted.\<close>

definition dbSold :: db where
  "dbSold = fst (createSale (envAt t1000) dbA (cartOf [(1, 3)]))"












section \<open>Stock never becomes negative\<close>

lemma nonneg_setStock:
  "list_all (\<lambda>p. 0 \<le> stockQuantity p) coll \<Longrightarrow> 0 \<le> q
   \<Longrightarrow> list_all (\<lambda>p. 0 \<le> stockQuantity p) (setStock coll i q)"
  by (induction coll) (auto simp: setStock_def)

lemma nonneg_save:
  "list_all (\<lambda>p. 0 \<le> stockQuantity p) coll
   \<Longrightarrow> list_all (\<lambda>p. 0 \<le> stockQuantity p) (save coll p)"
  by (simp add: save_def validStock_def nonneg_setStock)

lemma nonneg_saveAll:
  "list_all (\<lambda>p. 0 \<le> stockQuantity p) coll
   \<Longrightarrow> list_all (\<lambda>p. 0 \<le> stockQuantity p) (fst (saveAll coll docs))"
  unfolding saveAll_def fst_conv
  by (induction docs arbitrary: coll) (simp_all add: nonneg_save)

lemma nonneg_saveAll_eq:
  "saveAll coll docs = (coll', ok) \<Longrightarrow> list_all (\<lambda>p. 0 \<le> stockQuantity p) coll
   \<Longrightarrow> list_all (\<lambda>p. 0 \<le> stockQuantity p) coll'"
  using nonneg_saveAll [of coll docs] by simp

lemma nonneg_createSale:
  "stocksNonNegative d \<Longrightarrow> stocksNonNegative (fst (createSale e d body))"
  unfolding stocksNonNegative_def createSale_def Let_def
  by (auto split: sum.splits prod.splits option.splits dest: nonneg_saveAll_eq)

lemma nonneg_voidSale:
  "stocksNonNegative d \<Longrightarrow> stocksNonNegative (fst (voidSale e d i))"
  unfolding stocksNonNegative_def voidSale_def Let_def
  by (auto split: sum.splits prod.splits option.splits dest: nonneg_saveAll_eq)

lemma nonneg_handle:
  "stocksNonNegative d \<Longrightarrow> stocksNonNegative (fst (handle d r))"
  by (cases r) (simp_all add: nonneg_createSale nonneg_voidSale)

lemma nonneg_exec: "stocksNonNegative d \<Longrightarrow> stocksNonNegative (exec d rs)"
  unfolding exec_def
  by (induction rs arbitrary: d) (simp_all add: nonneg_handle)

text \<open>
  Claim C2.  From a state in which no product has a negative stock, every
  sequence of createSale and voidSale requests, with any bodies and any sale
  ids, leaves every stock non-negative after each request: the state after the
  first \<open>n\<close> requests satisfies the invariant, for every \<open>n\<close>.  createSale
  lowers a stock only after it has checked that the stock covers the quantity,
  and a save that would store a negative stock is rejected by the schema.
\<close>

theorem stock_never_negative:
  "stocksNonNegative d \<Longrightarrow> stocksNonNegative (exec d (take n rs))"
  by (rule nonneg_exec)

theorem stock_never_negative_witness:
  "stocksNonNegative dbA
   \<and> stocksNonNegative
       (exec dbA (take 2 [CreateSale (envAt t1000) (cartOf [(1, 3)]), VoidSale (envAt t1700) 1,
                          CreateSale (envAt t1700) (cartOf [(1, 20)])]))"
proof -
  have h: "stocksNonNegative dbA"
    by code_simp
  show ?thesis
    by (intro conjI) (rule h, rule stock_never_negative [OF h])
qed

section \<open>What a created sale looks like\<close>

lemma cartLoop_Inl:
  "cartLoop docs its sub acc = Inl r \<Longrightarrow> lineItemFailure r"
  by (induction its arbitrary: docs sub acc)
     (auto simp: Let_def split: option.splits if_splits)



text \<open>
  From a state without negative stocks createSale never tries to save one: the
  check of each line comes before the stock is lowered, so the validator of
  the schema does not reject its writes.
\<close>

lemma cartLoop_valid:
  "list_all validStock docs \<Longrightarrow> cartLoop docs its sub acc = Inr (docs', sub', acc')
   \<Longrightarrow> list_all validStock docs'"
proof (induction its arbitrary: docs sub acc)
  case Nil
  then show ?case by simp
next
  case (Cons it its)
  from Cons.prems(2) obtain p where
    g: "productMap_get docs (ci_product it) = Some p"
    and le: "\<not> stockQuantity p < ci_quantity it"
    and rec: "cartLoop (setStock docs (product_id p) (stockQuantity p - ci_quantity it)) its
                (sub + price p * of_int (ci_quantity it))
                (acc @ [\<lparr>item_product = product_id p, item_quantity = ci_quantity it,
                          item_price = price p,
                          item_subtotal = price p * of_int (ci_quantity it)\<rparr>])
              = Inr (docs', sub', acc')"
    by (auto simp: Let_def split: option.splits if_splits)
  from le Cons.prems(1)
  have "list_all validStock (setStock docs (product_id p) (stockQuantity p - ci_quantity it))"
    using nonneg_setStock [of docs "stockQuantity p - ci_quantity it" "product_id p"]
    by (simp add: validStock_def [abs_def])
  from Cons.IH [OF this rec] show ?case .
qed

lemma createSale_saves_valid:
  assumes "stocksNonNegative d"
  shows "snd (createSale e d body) \<noteq> Thrown ValidationError"
proof -
  from assms have v: "list_all validStock (find_in (map ci_product (b_items body)) (products d))"
    by (auto simp: stocksNonNegative_def list_all_iff validStock_def find_in_def)
  show ?thesis
    unfolding createSale_def Let_def saveAll_def
    by (auto split: sum.splits prod.splits option.splits
          dest: cartLoop_Inl cartLoop_valid [OF v])
qed

section \<open>A sale that fails on a line item\<close>

text \<open>
  Claim C4.  When createSale answers with a failure on a line item (a product
  that is not found, or a stock that is short), the database it leaves is the
  one it was given: no stock was lowered and no sale was stored.  The handler
  validates the whole cart on the loaded documents before it writes anything.
\<close>

theorem failed_sale_changes_nothing:
  "lineItemFailure (snd (createSale e d body)) \<Longrightarrow> fst (createSale e d body) = d"
  unfolding createSale_def Let_def
  by (auto split: sum.splits prod.splits option.splits if_splits)

theorem failed_sale_changes_nothing_witness:
  "lineItemFailure (snd (createSale (envAt t1000) dbC (cartOf [(1, 2), (2, 1)])))
   \<and> snd (createSale (envAt t1000) dbC (cartOf [(1, 2), (2, 1)])) = InsufficientStock ''B'' 0 1
   \<and> fst (createSale (envAt t1000) dbC (cartOf [(1, 2), (2, 1)])) = dbC
   \<and> stockOf (products (fst (createSale (envAt t1000) dbC (cartOf [(1, 2), (2, 1)])))) 1 = Some 5"
proof -
  have h: "lineItemFailure (snd (createSale (envAt t1000) dbC (cartOf [(1, 2), (2, 1)])))"
    by code_simp
  have r: "snd (createSale (envAt t1000) dbC (cartOf [(1, 2), (2, 1)])) = InsufficientStock ''B'' 0 1"
    by code_simp
  have s: "stockOf (products dbC) 1 = Some 5"
    by code_simp
  from failed_sale_changes_nothing [OF h] h r s show ?thesis
    by simp
qed

section \<open>Totals of a created sale\<close>




section \<open>Discount\<close>




section \<open>Sale numbers\<close>

text \<open>
  Claim C1, evaluated on the code.  On a host eight hours ahead of UTC, two
  sales are created one after the other at 10:00 and at 17:00 UTC of 1 January
  2024, a single UTC calendar day.  The date part of the number follows UTC,
  the count follows the local day, which changes at 16:00 UTC: both sales are
  numbered \<open>SALE-20240101-0001\<close>.  With a unique index on the sale number
  the second request fails instead, after its stock was written.
\<close>

theorem sale_number_collision:
  "map saleNumber (sales (exec dbA [CreateSale (envAt t1000) (cartOf [(1, 3)]),
                                     CreateSale (envAt t1700) (cartOf [(1, 3)])]))
     = [''SALE-20240101-0001'', ''SALE-20240101-0001'']
   \<and> take 10 (toISOString t1000) = ''2024-01-01'' \<and> take 10 (toISOString t1700) = ''2024-01-01''
   \<and> createSale ((envAt t1700)\<lparr>saleNumberUnique := True\<rparr>) dbSold (cartOf [(1, 3)])
       = (dbSold\<lparr>products := [productP\<lparr>stockQuantity := 4\<rparr>]\<rparr>, Thrown DuplicateKey)"
  by code_simp

section \<open>Voiding a sale whose product is gone\<close>

lemma find_product_None:
  "find (\<lambda>p. product_id p = i) coll = None \<longleftrightarrow> i \<notin> product_id ` set coll"
  by (induction coll) auto

lemma find_product_Some:
  "find (\<lambda>p. product_id p = i) coll = Some p \<Longrightarrow> product_id p = i \<and> p \<in> set coll"
  by (induction coll) (auto split: if_splits)

lemma populatedIds_eq:
  "populatedIds coll its =
     (if \<forall>it\<in>set its. item_product it \<in> product_id ` set coll
      then Some (map item_product its) else None)"
proof (induction its)
  case Nil
  then show ?case by simp
next
  case (Cons it its)
  show ?case
  proof (cases "find (\<lambda>p. product_id p = item_product it) coll")
    case None
    then have "item_product it \<notin> product_id ` set coll"
      by (simp add: find_product_None)
    with None show ?thesis
      by simp
  next
    case (Some p)
    from find_product_Some [OF Some] have "item_product it \<in> product_id ` set coll"
      by (metis imageI)
    with find_product_Some [OF Some] Some Cons show ?thesis
      by simp
  qed
qed





section \<open>Top products\<close>







section \<open>Stock bookkeeping\<close>

lemma found_ids:
  "map product_id (find_in ids coll) = filter (\<lambda>i. i \<in> set ids) (map product_id coll)"
  by (simp add: find_in_def filter_map comp_def)


lemma length_check_passes:
  assumes dc: "distinct (map product_id coll)"
    and di: "distinct ids" and sub: "set ids \<subseteq> product_id ` set coll"
  shows "length (find_in ids coll) = length ids"
proof -
  let ?F = "map product_id (find_in ids coll)"
  have dF: "distinct ?F"
    unfolding found_ids using dc by (rule distinct_filter)
  have "set ?F = set ids"
    unfolding found_ids using sub by auto
  with dF di have "length ?F = length ids"
    by (metis distinct_card)
  then show ?thesis by simp
qed

lemma stockOf_setStock:
  "stockOf (setStock docs i q) j
     = (if j = i then map_option (\<lambda>_. q) (stockOf docs j) else stockOf docs j)"
  by (induction docs) (auto simp: stockOf_def setStock_def)


lemma stockOf_find_in:
  "stockOf (find_in ids coll) j = (if j \<in> set ids then stockOf coll j else None)"
  by (induction coll) (auto simp: stockOf_def find_in_def)

lemma stockOf_None: "stockOf coll j = None \<longleftrightarrow> j \<notin> product_id ` set coll"
  by (simp add: stockOf_def find_product_None)

lemma productMap_get_stock:
  "productMap_get docs i = Some p \<Longrightarrow> product_id p = i \<and> stockOf docs i = Some (stockQuantity p)"
  by (auto simp: productMap_get_def stockOf_def dest: find_product_Some)









section \<open>Stock after a sale\<close>

text \<open>
  A cart whose lines name distinct products of the store, each with sufficient
  stock, is sold, unless a unique index refuses the sale number.
\<close>

lemma cartLoop_succeeds:
  assumes "distinct (map ci_product its)"
    and "\<forall>it\<in>set its. \<exists>q. stockOf docs (ci_product it) = Some q \<and> ci_quantity it \<le> q"
    and "\<forall>p\<in>set docs. product_id p \<notin> ci_product ` set its \<longrightarrow> validStock p"
  shows "\<exists>docs' sub' acc'. cartLoop docs its sub acc = Inr (docs', sub', acc')
           \<and> list_all validStock docs'"
  using assms
proof (induction its arbitrary: docs sub acc)
  case Nil
  then show ?case
    by (simp add: list_all_iff)
next
  case (Cons it its)
  from Cons.prems(2) obtain q where q: "stockOf docs (ci_product it) = Some q"
    and le: "ci_quantity it \<le> q"
    by auto
  from q obtain p where g: "productMap_get docs (ci_product it) = Some p"
    by (auto simp: stockOf_def productMap_get_def)
  from productMap_get_stock [OF g] q have pid: "ci_product it = product_id p"
    and sq: "stockQuantity p = q"
    by simp_all
  let ?docs = "setStock docs (product_id p) (stockQuantity p - ci_quantity it)"
  from Cons.prems(1) have d': "distinct (map ci_product its)"
    and fresh: "product_id p \<notin> ci_product ` set its"
    by (simp_all add: pid)
  have a2: "\<forall>x\<in>set its. \<exists>q. stockOf ?docs (ci_product x) = Some q \<and> ci_quantity x \<le> q"
  proof
    fix x assume x: "x \<in> set its"
    with fresh have "ci_product x \<noteq> product_id p"
      by (metis imageI)
    with Cons.prems(2) x show "\<exists>q. stockOf ?docs (ci_product x) = Some q \<and> ci_quantity x \<le> q"
      by (simp add: stockOf_setStock)
  qed
  have a3: "\<forall>r\<in>set ?docs. product_id r \<notin> ci_product ` set its \<longrightarrow> validStock r"
  proof (intro ballI impI)
    fix r assume r: "r \<in> set ?docs" and n: "product_id r \<notin> ci_product ` set its"
    from r obtain r0 where r0: "r0 \<in> set docs"
      and req: "r = (if product_id r0 = product_id p
                     then r0\<lparr>stockQuantity := stockQuantity p - ci_quantity it\<rparr> else r0)"
      by (auto simp: setStock_def)
    show "validStock r"
    proof (cases "product_id r0 = product_id p")
      case True
      with req le sq show ?thesis
        by (simp add: validStock_def)
    next
      case False
      with req have "r = r0" by simp
      with False n r0 Cons.prems(3) show ?thesis
        by (simp add: pid)
    qed
  qed
  from Cons.IH [OF d' a2 a3] g le sq show ?case
    by (simp add: Let_def)
qed

lemma createSale_succeeds:
  assumes dc: "distinct (map product_id (products d))"
    and di: "distinct (map ci_product (b_items body))"
    and ex: "\<forall>it\<in>set (b_items body).
               \<exists>q. stockOf (products d) (ci_product it) = Some q \<and> ci_quantity it \<le> q"
    and free: "\<not> (saleNumberUnique e
                 \<and> generateSaleNumber e (sales d) \<in> set (map saleNumber (sales d)))"
  shows "\<exists>d' s. createSale e d body = (d', Created s)"
proof -
  let ?its = "b_items body"
  let ?ids = "map ci_product ?its"
  let ?found = "find_in ?ids (products d)"
  have "set ?ids \<subseteq> product_id ` set (products d)"
  proof
    fix j assume "j \<in> set ?ids"
    then obtain it where "it \<in> set ?its" and "j = ci_product it"
      by auto
    with ex have "stockOf (products d) j \<noteq> None"
      by auto
    then show "j \<in> product_id ` set (products d)"
      by (simp add: stockOf_None)
  qed
  from length_check_passes [OF dc di this] have len: "length ?found = length ?its"
    by simp
  from ex have a2: "\<forall>it\<in>set ?its. \<exists>q. stockOf ?found (ci_product it) = Some q \<and> ci_quantity it \<le> q"
    by (simp add: stockOf_find_in)
  have a3: "\<forall>p\<in>set ?found. product_id p \<notin> ci_product ` set ?its \<longrightarrow> validStock p"
    by (auto simp: find_in_def)
  from cartLoop_succeeds [OF di a2 a3, of 0 "[]"] obtain docs sub saleItems where
    "cartLoop ?found ?its 0 [] = Inr (docs, sub, saleItems)" and "list_all validStock docs"
    by blast
  with len free show ?thesis
    by (simp add: createSale_def Let_def saveAll_def Sale_create_def)
qed



section \<open>Products that are not active\<close>

lemma withActive_simps [simp]:
  "product_id (withActive g p) = product_id p"
  "stockQuantity (withActive g p) = stockQuantity p"
  "price (withActive g p) = price p"
  "name (withActive g p) = name p"
  "withActive g (p\<lparr>stockQuantity := q\<rparr>) = (withActive g p)\<lparr>stockQuantity := q\<rparr>"
  by (simp_all add: withActive_def)












section \<open>Stock restored by a void\<close>







lemma restoreLoop_valid:
  "list_all validStock docs \<Longrightarrow> \<forall>it\<in>set its. 0 \<le> item_quantity it
   \<Longrightarrow> list_all validStock (restoreLoop docs its)"
proof (induction its arbitrary: docs)
  case Nil
  then show ?case by simp
next
  case (Cons it its)
  show ?case
  proof (cases "productMap_get docs (item_product it)")
    case None
    with Cons show ?thesis by simp
  next
    case (Some p)
    then have "p \<in> set docs"
      by (auto simp: productMap_get_def dest: find_product_Some)
    with Cons.prems have "0 \<le> stockQuantity p + item_quantity it"
      by (auto simp: list_all_iff validStock_def)
    with Cons.prems have "list_all validStock
        (setStock docs (product_id p) (stockQuantity p + item_quantity it))"
      using nonneg_setStock [of docs "stockQuantity p + item_quantity it" "product_id p"]
      by (simp add: validStock_def [abs_def])
    with Cons Some show ?thesis by simp
  qed
qed

lemma voidSale_succeeds:
  assumes dc: "distinct (map product_id (products d))"
    and f: "findById (sales d) i = Some s" and nv: "\<not> isVoid s"
    and di: "distinct (map item_product (items s))"
    and ex: "\<forall>it\<in>set (items s). item_product it \<in> product_id ` set (products d)"
    and nn: "stocksNonNegative d" and qs: "\<forall>it\<in>set (items s). 0 \<le> item_quantity it"
  shows "\<exists>d'. voidSale e d i
           = (d', Voided (s\<lparr>isVoid := True, voidedAt := Some (now e), voidedBy := Some (user e)\<rparr>))"
proof -
  let ?ids = "map item_product (items s)"
  let ?found = "find_in ?ids (products d)"
  from ex have pop: "populatedIds (products d) (items s) = Some ?ids"
    by (simp add: populatedIds_eq)
  from ex have "set ?ids \<subseteq> product_id ` set (products d)"
    by auto
  from length_check_passes [OF dc di this] have len: "length ?found = length ?ids" .
  from nn have "list_all validStock ?found"
    by (auto simp: stocksNonNegative_def list_all_iff validStock_def find_in_def)
  from restoreLoop_valid [OF this qs] have "list_all validStock (restoreLoop ?found (items s))" .
  with f nv pop len show ?thesis
    by (simp add: voidSale_def saveAll_def Let_def)
qed

text \<open>
  The 404 for missing products is the answer only when every product of the
  sale is in the store and two line items name the same product.
\<close>

lemma voidSale_ProductsNotFound:
  assumes "voidSale e d i = (d', ProductsNotFound)"
  shows "d' = d
       \<and> (\<exists>s. findById (sales d) i = Some s
              \<and> (\<forall>it\<in>set (items s). item_product it \<in> product_id ` set (products d))
              \<and> (distinct (map product_id (products d))
                  \<longrightarrow> \<not> distinct (map item_product (items s))))"
proof -
  from assms have "\<exists>s. findById (sales d) i = Some s
      \<and> (\<forall>it\<in>set (items s). item_product it \<in> product_id ` set (products d))
      \<and> length (find_in (map item_product (items s)) (products d))
            \<noteq> length (map item_product (items s))
      \<and> d' = d"
    unfolding voidSale_def Let_def populatedIds_eq
    by (auto split: option.splits if_splits prod.splits)
  then obtain s where f: "findById (sales d) i = Some s"
    and ex: "\<forall>it\<in>set (items s). item_product it \<in> product_id ` set (products d)"
    and len: "length (find_in (map item_product (items s)) (products d))
                \<noteq> length (map item_product (items s))"
    and same: "d' = d"
    by blast
  from ex have sub: "set (map item_product (items s)) \<subseteq> product_id ` set (products d)"
    by auto
  have "\<not> distinct (map item_product (items s))" if "distinct (map product_id (products d))"
    using length_check_passes [OF that _ sub] len by blast
  with f ex same show ?thesis
    by blast
qed




end
